theory Spec2Isabelle
  imports Complex_Main "HOL-Library.AList" "HOL-Library.Sublist" "HOL-Library.Multiset"
begin

section \<open>JavaScript values used by the two modules\<close>

text \<open>
  A thrown JavaScript value. \<open>Error msg\<close> is \<open>new Error(msg)\<close>, \<open>TypeError msg\<close> the
  error the runtime raises when a method is read off \<open>undefined\<close>; everything a
  collaborator outside the module throws is a value of this type as well.
\<close>

datatype js_error = Error string | TypeError string

text \<open>
  The value of a row's \<open>insert_timestamp\<close> column when it is present. The source tells a
  \<open>Date\<close> object from anything else (\<open>instanceof Date\<close>) and reads anything else as a
  string handed to \<open>new Date\<close>. A \<open>Date\<close> is its time value: an integral number of
  milliseconds, or \<open>NaN\<close> (an invalid date), which is \<open>None\<close> here.
\<close>

datatype js_timestamp = DateObject "int option" | DateString string

text \<open>
  Truthiness of \<open>item.insert_timestamp\<close>: an absent field is \<open>undefined\<close>, every
  \<open>Date\<close> object is truthy (an invalid one too), a string is truthy unless empty.
\<close>

fun truthy :: "js_timestamp option \<Rightarrow> bool" where
  "truthy None = False"
| "truthy (Some (DateObject t)) = True"
| "truthy (Some (DateString s)) = (s \<noteq> [])"

text \<open>
  \<open>x instanceof Date ? x : new Date(x as string)\<close>, as the time value of the resulting
  \<open>Date\<close>. How \<open>new Date\<close> reads a string belongs to the runtime, so the reading is the
  parameter \<open>parse\<close> (\<open>None\<close> for a string that gives an invalid date); the source
  evaluates the expression on truthy values only, the absent case is there for totality.
\<close>

fun toDate :: "(string \<Rightarrow> int option) \<Rightarrow> js_timestamp option \<Rightarrow> int option" where
  "toDate parse (Some (DateObject t)) = t"
| "toDate parse (Some (DateString s)) = parse s"
| "toDate parse None = None"

text \<open>
  \<open>a > b\<close> on two \<open>Date\<close> objects compares their time values as numbers; a comparison
  with \<open>NaN\<close> on either side is false.
\<close>

fun date_gt :: "int option \<Rightarrow> int option \<Rightarrow> bool" where
  "date_gt (Some a) (Some b) = (b < a)"
| "date_gt _ _ = False"

section \<open>The vector store: rows\<close>

text \<open>
  \<open>LongTermMemoryData\<close>, the stored row (the same fields and \<open>insert_timestamp\<close>) and
  \<open>SearchResultItem\<close> (the stored row and \<open>score\<close>). The fields \<open>id\<close> and \<open>text\<close> carry
  the prefix \<open>item_\<close>. \<open>score || 0\<close> reads \<open>undefined\<close>, \<open>NaN\<close> and \<open>0\<close> alike as
  zero, so a missing score is \<open>None\<close> and a present one a real number.
\<close>

record long_term_memory_data =
  item_id :: string
  item_text :: string
  vector :: "real list"
  metadata_timestamp :: "int option"
  metadata_stage :: string

record stored_row = long_term_memory_data +
  insert_timestamp :: "js_timestamp option"

record search_result_item = stored_row +
  score :: "real option"

section \<open>The map of the de-duplication\<close>

text \<open>
  A JavaScript \<open>Map\<close> keeps its keys in insertion order, and \<open>set\<close> on a key that is
  present replaces the value where it stands. That is an association list with
  \<open>AList.update\<close>; \<open>values()\<close> lists the values in that order.
\<close>

type_synonym 'v js_map = "(string \<times> 'v) list"

definition map_get :: "'v js_map \<Rightarrow> string \<Rightarrow> 'v option" where
  "map_get m k = map_of m k"

definition map_has :: "'v js_map \<Rightarrow> string \<Rightarrow> bool" where
  "map_has m k = (map_of m k \<noteq> None)"

definition map_set :: "string \<Rightarrow> 'v \<Rightarrow> 'v js_map \<Rightarrow> 'v js_map" where
  "map_set k v m = AList.update k v m"

definition map_values :: "'v js_map \<Rightarrow> 'v list" where
  "map_values m = map snd m"

section \<open>searchLongTermMemory: de-duplication, sort and slice\<close>

text \<open>
  The body of the \<open>for (const item of results)\<close> loop, lines 362 to 386: one row against
  the map built so far.
\<close>

definition dedupStep ::
  "(string \<Rightarrow> int option) \<Rightarrow> search_result_item js_map \<Rightarrow> search_result_item
     \<Rightarrow> search_result_item js_map" where
  "dedupStep parse latestByIdMap item =
     (if truthy (insert_timestamp item) then
        (let existingItem = map_get latestByIdMap (item_id item);
             itemTimestamp = toDate parse (insert_timestamp item)
         in case existingItem of
              None \<Rightarrow> map_set (item_id item) item latestByIdMap
            | Some existing \<Rightarrow>
                if \<not> truthy (insert_timestamp existing) then
                  map_set (item_id item) item latestByIdMap
                else
                  (let existingTimestamp = toDate parse (insert_timestamp existing)
                   in if date_gt itemTimestamp existingTimestamp
                      then map_set (item_id item) item latestByIdMap
                      else latestByIdMap))
      else
        (if \<not> map_has latestByIdMap (item_id item)
         then map_set (item_id item) item latestByIdMap
         else latestByIdMap))"

text \<open>The loop itself, from the empty map.\<close>

definition latestById ::
  "(string \<Rightarrow> int option) \<Rightarrow> search_result_item list \<Rightarrow> search_result_item js_map" where
  "latestById parse results = foldl (dedupStep parse) [] results"

text \<open>
  \<open>(a, b) => (b.score || 0) - (a.score || 0)\<close> orders by descending score with a missing
  score as zero. \<open>Array.prototype.sort\<close> is stable; so is \<open>sort_key\<close>, here on the negated
  score.
\<close>

definition scoreOrZero :: "search_result_item \<Rightarrow> real" where
  "scoreOrZero a = (case score a of None \<Rightarrow> 0 | Some x \<Rightarrow> x)"

definition sortByScore :: "search_result_item list \<Rightarrow> search_result_item list" where
  "sortByScore xs = sort_key (\<lambda>a. - scoreOrZero a) xs"

text \<open>
  \<open>xs.slice(0, topN)\<close> for an integer \<open>topN\<close>: a negative end counts from the end of the
  array.
\<close>

definition slice0 :: "'a list \<Rightarrow> int \<Rightarrow> 'a list" where
  "slice0 xs topN =
     (if topN < 0 then take (nat (int (length xs) + topN)) xs else take (nat topN) xs)"

definition dedupedResults ::
  "(string \<Rightarrow> int option) \<Rightarrow> search_result_item list \<Rightarrow> int \<Rightarrow> search_result_item list" where
  "dedupedResults parse results topN =
     slice0 (sortByScore (map_values (latestById parse results))) topN"

section \<open>The vector store: module state and collaborators\<close>

datatype connection = Connection nat

datatype table_handle = Table nat

text \<open>The query built by \<open>table.search(queryEmbedding).limit(topN)\<close> and \<open>.where(filter)\<close>.\<close>

record search_query =
  query_vector :: "real list"
  query_limit :: int
  query_where :: "string option"

text \<open>Every operation the module asks of the database or the embedding service.\<close>

datatype backend_call =
    Connect string
  | TableNames connection
  | OpenTable connection string
  | GetEmbeddings string
  | CreateTable connection string "stored_row list"
  | TableAdd table_handle "stored_row list"
  | TableSearch table_handle search_query

text \<open>
  What lies outside the module during one call of an exported function: the home
  directory (\<open>os.homedir()\<close>) and the runtime's \<open>path.join\<close>, the answer of every
  collaborator (\<open>Inl\<close> when it throws), the readings of \<open>new Date()\<close>, and the
  runtime's reading of a date string. \<open>placeholderDate\<close> is the reading taken for the
  placeholder row (line 242) when the table is created in this call, \<open>clock i\<close> the
  reading taken for the item at index \<open>i\<close> of the batch (line 298); nothing is assumed
  of how the readings relate. \<open>getEmbeddings\<close> comes from \<open>./embeddings.js\<close>; its
  result may be absent.
\<close>

record env =
  homedir :: string
  path_join :: "string list \<Rightarrow> string"
  connect :: "string \<Rightarrow> js_error + connection"
  tableNames :: "connection \<Rightarrow> js_error + string list"
  openTable :: "connection \<Rightarrow> string \<Rightarrow> js_error + table_handle"
  getEmbeddings :: "string \<Rightarrow> js_error + real list option"
  createTable :: "connection \<Rightarrow> string \<Rightarrow> stored_row list \<Rightarrow> js_error + table_handle"
  table_add :: "table_handle \<Rightarrow> stored_row list \<Rightarrow> js_error + unit"
  toArray :: "table_handle \<Rightarrow> search_query \<Rightarrow> js_error + search_result_item list"
  placeholderDate :: int
  clock :: "nat \<Rightarrow> int"
  date_parse :: "string \<Rightarrow> int option"

text \<open>
  The module's variables \<open>db\<close>, \<open>table\<close> and \<open>isInitialized\<close>, and with them the log of
  the operations asked of the collaborators so far, oldest first. The log is how
  "does not touch the backing store" is stated: the log is unchanged.
\<close>

record store_state =
  db :: "connection option"
  table :: "table_handle option"
  isInitialized :: bool
  calls :: "backend_call list"

definition initial_state :: store_state where
  "initial_state = \<lparr>db = None, table = None, isInitialized = False, calls = []\<rparr>"

text \<open>\<open>path.join(os.homedir(), '.sequential-thinking', 'vector_store')\<close>, line 180.\<close>

definition VECTOR_STORE_DIR :: "env \<Rightarrow> string" where
  "VECTOR_STORE_DIR e = path_join e [homedir e, ''.sequential-thinking'', ''vector_store'']"

definition TABLE_NAME :: string where
  "TABLE_NAME = ''long_term_memory''"

text \<open>
  Modelled from the spec: the enumeration \<open>ProcessingStage\<close> is declared in \<open>./types.js\<close>,
  which is not among the sources; the placeholder row carries "a sentinel stage tag".
  No theorem below depends on the string.
\<close>

definition ProcessingStage_PREPARATION :: string where
  "ProcessingStage_PREPARATION = ''PREPARATION''"

definition logCall :: "backend_call \<Rightarrow> store_state \<Rightarrow> store_state" where
  "logCall c s = s\<lparr>calls := calls s @ [c]\<rparr>"

section \<open>initializeVectorStore\<close>

text \<open>The \<open>catch\<close> block, lines 255 to 262: clear the three variables and throw again.\<close>

definition initFailed :: "js_error \<Rightarrow> store_state \<Rightarrow> (js_error + unit) \<times> store_state" where
  "initFailed error s = (Inl error, s\<lparr>isInitialized := False, db := None, table := None\<rparr>)"

text \<open>Lines 253 and 254, after \<open>table\<close> has been assigned.\<close>

definition initDone :: "table_handle \<Rightarrow> store_state \<Rightarrow> (js_error + unit) \<times> store_state" where
  "initDone t s = (Inr (), s\<lparr>table := Some t, isInitialized := True\<rparr>)"

definition dummyData :: "env \<Rightarrow> nat \<Rightarrow> stored_row list" where
  "dummyData e embeddingDimension =
     [\<lparr>item_id = ''dummy_id'', item_text = ''dummy_text'',
       vector = replicate embeddingDimension 0,
       metadata_timestamp = Some (placeholderDate e),
       metadata_stage = ProcessingStage_PREPARATION,
       insert_timestamp = None\<rparr>]"

text \<open>The error of line 234, thrown when the sample embedding is absent or empty.\<close>

definition embeddingDimensionError :: js_error where
  "embeddingDimensionError =
     Error ''Could not determine embedding dimension. Ensure embedding service is configured and API key is valid.''"

text \<open>The \<open>else\<close> branch, lines 227 to 251: the table does not exist yet.\<close>

definition createNewTable ::
  "env \<Rightarrow> connection \<Rightarrow> store_state \<Rightarrow> (js_error + unit) \<times> store_state" where
  "createNewTable e c s =
     (let s1 = logCall (GetEmbeddings ''schema_init'') s in
      case getEmbeddings e ''schema_init'' of
        Inl error \<Rightarrow> initFailed error s1
      | Inr sampleEmbedding \<Rightarrow>
          (case map_option length sampleEmbedding of
             None \<Rightarrow> initFailed embeddingDimensionError s1
           | Some embeddingDimension \<Rightarrow>
               if embeddingDimension = 0 then
                 initFailed embeddingDimensionError s1
               else
                 (let s2 = logCall (CreateTable c TABLE_NAME (dummyData e embeddingDimension)) s1 in
                  case createTable e c TABLE_NAME (dummyData e embeddingDimension) of
                    Inl error \<Rightarrow> initFailed error s2
                  | Inr t \<Rightarrow> initDone t s2)))"

text \<open>Lines 222 to 252, once \<open>db\<close> holds the connection.\<close>

definition openOrCreateTable ::
  "env \<Rightarrow> connection \<Rightarrow> store_state \<Rightarrow> (js_error + unit) \<times> store_state" where
  "openOrCreateTable e c s =
     (let s1 = logCall (TableNames c) s in
      case tableNames e c of
        Inl error \<Rightarrow> initFailed error s1
      | Inr names \<Rightarrow>
          if TABLE_NAME \<in> set names then
            (let s2 = logCall (OpenTable c TABLE_NAME) s1 in
             case openTable e c TABLE_NAME of
               Inl error \<Rightarrow> initFailed error s2
             | Inr t \<Rightarrow> initDone t s2)
          else createNewTable e c s1)"

definition initializeVectorStore :: "env \<Rightarrow> store_state \<Rightarrow> (js_error + unit) \<times> store_state" where
  "initializeVectorStore e s =
     (if isInitialized s then (Inr (), s)
      else
        (let s1 = logCall (Connect (VECTOR_STORE_DIR e)) s in
         case connect e (VECTOR_STORE_DIR e) of
           Inl error \<Rightarrow> initFailed error s1
         | Inr c \<Rightarrow> openOrCreateTable e c (s1\<lparr>db := Some c\<rparr>)))"

section \<open>addOrUpdateMemoryItems\<close>

text \<open>
  Lines 283 to 299: \<open>new Date(item.metadata_timestamp)\<close> copies the date, and every item
  gets an \<open>insert_timestamp\<close> of its own reading of the clock.
\<close>

definition timestampedData :: "env \<Rightarrow> long_term_memory_data list \<Rightarrow> stored_row list" where
  "timestampedData e items =
     map (\<lambda>(i, item).
            \<lparr>item_id = item_id item, item_text = item_text item, vector = vector item,
             metadata_timestamp = metadata_timestamp item,
             metadata_stage = metadata_stage item,
             insert_timestamp = Some (DateObject (Some (clock e i)))\<rparr>)
         (enumerate 0 items)"

text \<open>
  \<open>items\<close> is \<open>None\<close> when the caller passes \<open>null\<close> or \<open>undefined\<close> (the test
  \<open>!items\<close>). \<open>await initializeVectorStore()\<close> stands before the \<open>try\<close>: what it throws
  leaves the function.
\<close>

definition addOrUpdateMemoryItems ::
  "env \<Rightarrow> long_term_memory_data list option \<Rightarrow> store_state
     \<Rightarrow> (js_error + unit) \<times> store_state" where
  "addOrUpdateMemoryItems e items s =
     (case initializeVectorStore e s of
        (Inl error, s1) \<Rightarrow> (Inl error, s1)
      | (Inr _, s1) \<Rightarrow>
          (case table s1 of
             None \<Rightarrow> (Inr (), s1)
           | Some t \<Rightarrow>
               (case items of
                  None \<Rightarrow> (Inr (), s1)
                | Some its \<Rightarrow>
                    if length its = 0 then (Inr (), s1)
                    else
                      (let s2 = logCall (TableAdd t (timestampedData e its)) s1 in
                       case table_add e t (timestampedData e its) of
                         Inl error \<Rightarrow> (Inr (), s2)
                       | Inr _ \<Rightarrow> (Inr (), s2)))))"

section \<open>searchLongTermMemory\<close>

text \<open>
  \<open>if (filter)\<close>: an absent or empty filter adds no \<open>where\<close>. The parameter
  \<open>filter\<close> is \<open>flt\<close> here.
\<close>

definition whereClause :: "string option \<Rightarrow> string option" where
  "whereClause flt = (case flt of None \<Rightarrow> None | Some f \<Rightarrow> if f = [] then None else Some f)"

text \<open>
  \<open>queryEmbedding\<close> is \<open>None\<close> when absent. As in the writer, the initializer is awaited
  before the \<open>try\<close>; inside it every failure of the query gives the empty array.
\<close>

definition searchLongTermMemory ::
  "env \<Rightarrow> real list option \<Rightarrow> int \<Rightarrow> string option \<Rightarrow> store_state
     \<Rightarrow> (js_error + search_result_item list) \<times> store_state" where
  "searchLongTermMemory e queryEmbedding topN flt s =
     (case initializeVectorStore e s of
        (Inl error, s1) \<Rightarrow> (Inl error, s1)
      | (Inr _, s1) \<Rightarrow>
          (case table s1 of
             None \<Rightarrow> (Inr [], s1)
           | Some t \<Rightarrow>
               (case queryEmbedding of
                  None \<Rightarrow> (Inr [], s1)
                | Some v \<Rightarrow>
                    if length v = 0 then (Inr [], s1)
                    else
                      (let query = \<lparr>query_vector = v, query_limit = topN,
                                    query_where = whereClause flt\<rparr>;
                           s2 = logCall (TableSearch t query) s1
                       in case toArray e t query of
                            Inl error \<Rightarrow> (Inr [], s2)
                          | Inr results \<Rightarrow>
                              (Inr (dedupedResults (date_parse e) results topN), s2)))))"

section \<open>The BigQuery server: strings\<close>

text \<open>
  Strings are sequences of ASCII characters here. On those \<open>String.prototype.toUpperCase\<close>
  maps \<open>a\<close> to \<open>z\<close> onto \<open>A\<close> to \<open>Z\<close> and leaves every other character as it is, and
  \<open>s.includes(t)\<close> says that \<open>t\<close> occurs in \<open>s\<close> as a contiguous run.
\<close>

definition toUpperChar :: "char \<Rightarrow> char" where
  "toUpperChar c =
     (case map_of (zip ''abcdefghijklmnopqrstuvwxyz'' ''ABCDEFGHIJKLMNOPQRSTUVWXYZ'') c of
        Some u \<Rightarrow> u
      | None \<Rightarrow> c)"

definition toUpperCase :: "string \<Rightarrow> string" where
  "toUpperCase s = map toUpperChar s"

definition str_includes :: "string \<Rightarrow> string \<Rightarrow> bool" where
  "str_includes s t = sublist t s"

section \<open>qualifyTablePath\<close>

text \<open>
  The pattern \<open>/FROM\s+(?:(\w+)\.)?INFORMATION_SCHEMA\.TABLES/gi\<close>, piece by piece:
  \<open>\s\<close> and \<open>\w\<close> on ASCII, and a literal matched without regard to case, giving what
  follows the match.
\<close>

definition isSpace :: "char \<Rightarrow> bool" where
  "isSpace c = (c \<in> set [CHR '' '', CHR 0x09, CHR 0x0A, CHR 0x0B, CHR 0x0C, CHR 0x0D])"

definition isWord :: "char \<Rightarrow> bool" where
  "isWord c =
     (c \<in> set ''abcdefghijklmnopqrstuvwxyzABCDEFGHIJKLMNOPQRSTUVWXYZ0123456789_'')"

fun matchIgnoreCase :: "string \<Rightarrow> string \<Rightarrow> string option" where
  "matchIgnoreCase [] s = Some s"
| "matchIgnoreCase (p # ps) [] = None"
| "matchIgnoreCase (p # ps) (c # cs) =
     (if toUpperChar p = toUpperChar c then matchIgnoreCase ps cs else None)"

text \<open>
  A match of the whole pattern at the head of \<open>s\<close>: the captured dataset (\<open>None\<close> when
  the optional group took nothing) and what follows the match. \<open>\s+\<close> and \<open>\w+\<close> are
  greedy, and giving back a character never helps (the next piece would have to start
  with a blank, or a dot would have to be a word character); when the group matches
  but the rest does not, the pattern is tried again without the group.
\<close>

definition matchHere :: "string \<Rightarrow> (string option \<times> string) option" where
  "matchHere s =
     (case matchIgnoreCase ''FROM'' s of
        None \<Rightarrow> None
      | Some afterFrom \<Rightarrow>
          if takeWhile isSpace afterFrom = [] then None
          else
            (let afterSpace = dropWhile isSpace afterFrom;
                 dataset = takeWhile isWord afterSpace;
                 withGroup =
                   (if dataset = [] then None
                    else (case dropWhile isWord afterSpace of
                            [] \<Rightarrow> None
                          | d # afterDot \<Rightarrow>
                              if d = CHR ''.''
                              then matchIgnoreCase ''INFORMATION_SCHEMA.TABLES'' afterDot
                              else None))
             in case withGroup of
                  Some rest \<Rightarrow> Some (Some dataset, rest)
                | None \<Rightarrow>
                    (case matchIgnoreCase ''INFORMATION_SCHEMA.TABLES'' afterSpace of
                       Some rest \<Rightarrow> Some (None, rest)
                     | None \<Rightarrow> None)))"

text \<open>
  \<open>sql.replace(pattern, callback)\<close> with the \<open>g\<close> flag, scanning from the left. \<open>skip\<close>
  counts the characters still covered by the match just replaced. The callback throws
  at the first match without a dataset, and the throw leaves \<open>replace\<close>.
\<close>

fun replaceMatches :: "string \<Rightarrow> nat \<Rightarrow> string \<Rightarrow> js_error + string" where
  "replaceMatches projectId skip [] = Inr []"
| "replaceMatches projectId (Suc skip) (c # cs) = replaceMatches projectId skip cs"
| "replaceMatches projectId 0 (c # cs) =
     (case matchHere (c # cs) of
        None \<Rightarrow> map_sum (\<lambda>error. error) (\<lambda>r. c # r) (replaceMatches projectId 0 cs)
      | Some (None, rest) \<Rightarrow>
          Inl (Error ''Dataset must be specified when querying INFORMATION_SCHEMA (e.g. dataset.INFORMATION_SCHEMA.TABLES)'')
      | Some (Some dataset, rest) \<Rightarrow>
          map_sum (\<lambda>error. error)
            (\<lambda>r. ''FROM `'' @ projectId @ ''.'' @ dataset @ ''.INFORMATION_SCHEMA.TABLES`'' @ r)
            (replaceMatches projectId (length cs - length rest) cs))"

definition qualifyTablePath :: "string \<Rightarrow> string \<Rightarrow> js_error + string" where
  "qualifyTablePath sql projectId = replaceMatches projectId 0 sql"

section \<open>The handler of the tool call (CallToolRequestSchema)\<close>

text \<open>
  The request as the handler reads it: \<open>request.params.name\<close>, and the two arguments,
  \<open>None\<close> when \<open>arguments\<close> or the argument is missing.
\<close>

record call_tool_request =
  params_name :: string
  arguments_sql :: "string option"
  arguments_maximumBytesBilled :: "string option"

text \<open>The options handed to \<open>bigquery.query\<close>.\<close>

record query_options =
  query :: string
  location :: string
  maximumBytesBilled :: string

text \<open>
  The reply: \<open>rows\<close> stands for the text \<open>JSON.stringify(rows, null, 2)\<close> of the one
  content item.
\<close>

record 'rows tool_response =
  content_rows :: 'rows
  isError :: bool

text \<open>
  The handler, lines 129 to 165. \<open>projectId\<close> and the location come from the command
  line, \<open>bigquery_query\<close> is the backend's answer to a query (\<open>Inl\<close> when it throws).
  The second component lists the queries sent to the backend. \<open>sql.toUpperCase()\<close> on an
  absent \<open>sql\<close> is a \<open>TypeError\<close> of the runtime.
\<close>

definition callToolHandler ::
  "string \<Rightarrow> string \<Rightarrow> (query_options \<Rightarrow> js_error + 'rows) \<Rightarrow> call_tool_request
     \<Rightarrow> (js_error + 'rows tool_response) \<times> query_options list" where
  "callToolHandler projectId loc bigquery_query request =
     (if params_name request = ''query'' then
        (case arguments_sql request of
           None \<Rightarrow>
             (Inl (TypeError ''Cannot read properties of undefined (reading 'toUpperCase')''), [])
         | Some sql \<Rightarrow>
             (let maxBytes =
                    (case arguments_maximumBytesBilled request of
                       None \<Rightarrow> ''1000000000''
                     | Some m \<Rightarrow> if m = [] then ''1000000000'' else m);
                  upperSql = toUpperCase sql
              in if str_includes upperSql ''INSERT'' \<or>
                    str_includes upperSql ''UPDATE'' \<or>
                    str_includes upperSql ''DELETE'' \<or>
                    str_includes upperSql ''CREATE'' \<or>
                    str_includes upperSql ''DROP''
                 then (Inl (Error ''Only READ operations are allowed''), [])
                 else
                   (case (if str_includes (toUpperCase sql) ''INFORMATION_SCHEMA''
                          then qualifyTablePath sql projectId else Inr sql) of
                      Inl error \<Rightarrow> (Inl error, [])
                    | Inr qualified \<Rightarrow>
                        (let options = \<lparr>query = qualified, location = loc,
                                          maximumBytesBilled = maxBytes\<rparr>
                         in case bigquery_query options of
                              Inl error \<Rightarrow> (Inl error, [options])
                            | Inr rows \<Rightarrow>
                                (Inr \<lparr>content_rows = rows, isError = False\<rparr>, [options])))))
      else (Inl (Error (''Unknown tool: '' @ params_name request)), []))"

section \<open>Observations on the model\<close>

text \<open>The number of \<open>createTable\<close> requests in the log.\<close>

fun isCreateTable :: "backend_call \<Rightarrow> bool" where
  "isCreateTable (CreateTable c n rows) = True"
| "isCreateTable _ = False"

definition creationAttempts :: "store_state \<Rightarrow> nat" where
  "creationAttempts s = length (filter isCreateTable (calls s))"


section \<open>Example inputs\<close>

text \<open>
  Rows of a search: two versions of the record \<open>a\<close> written at the times 1000 and 2000,
  a third with the time of the first, a legacy row of \<open>a\<close> without \<open>insert_timestamp\<close>,
  a version of \<open>a\<close> whose time is a string and whose score is missing, a row of
  another record, and a row of a third record with a negative score.
\<close>

definition rowOld :: search_result_item where
  "rowOld = \<lparr>item_id = ''a'', item_text = ''first version'', vector = [1, 0],
     metadata_timestamp = Some 10, metadata_stage = ''analysis'',
     insert_timestamp = Some (DateObject (Some 1000)), score = Some (9 / 10)\<rparr>"

definition rowNew :: search_result_item where
  "rowNew = \<lparr>item_id = ''a'', item_text = ''second version'', vector = [1, 0],
     metadata_timestamp = Some 10, metadata_stage = ''analysis'',
     insert_timestamp = Some (DateObject (Some 2000)), score = Some (7 / 10)\<rparr>"



definition rowString :: search_result_item where
  "rowString = \<lparr>item_id = ''a'', item_text = ''time as text'', vector = [1, 0],
     metadata_timestamp = Some 10, metadata_stage = ''analysis'',
     insert_timestamp = Some (DateString ''1970-01-01T00:00:03.000Z''), score = None\<rparr>"

definition rowOther :: search_result_item where
  "rowOther = \<lparr>item_id = ''b'', item_text = ''another record'', vector = [0, 1],
     metadata_timestamp = Some 20, metadata_stage = ''synthesis'',
     insert_timestamp = Some (DateObject (Some 1500)), score = Some (3 / 4)\<rparr>"

definition rowNegative :: search_result_item where
  "rowNegative = \<lparr>item_id = ''c'', item_text = ''far away'', vector = [0, 1],
     metadata_timestamp = Some 30, metadata_stage = ''synthesis'',
     insert_timestamp = Some (DateObject (Some 1200)), score = Some (- (1 / 2))\<rparr>"

definition exampleParse :: "string \<Rightarrow> int option" where
  "exampleParse str = (if str = ''1970-01-01T00:00:03.000Z'' then Some 3000 else None)"

definition exampleItem :: long_term_memory_data where
  "exampleItem = \<lparr>item_id = ''a'', item_text = ''first version'', vector = [1, 0],
     metadata_timestamp = Some 10, metadata_stage = ''analysis''\<rparr>"

text \<open>
  \<open>path.join\<close> on segments that need no normalising: the segments with a slash
  between them.
\<close>

fun examplePathJoin :: "string list \<Rightarrow> string" where
  "examplePathJoin [] = ''.''"
| "examplePathJoin [p] = p"
| "examplePathJoin (p # q # ps) = p @ ''/'' @ examplePathJoin (q # ps)"

text \<open>
  A world in which every collaborator answers: the store is empty at first, the
  embedding has two components, and a search fetches three rows of two records.
\<close>

definition exampleEnv :: env where
  "exampleEnv = \<lparr>homedir = ''/home/user'',
     path_join = examplePathJoin,
     connect = (\<lambda>dir. Inr (Connection 0)),
     tableNames = (\<lambda>c. Inr []),
     openTable = (\<lambda>c n. Inr (Table 0)),
     getEmbeddings = (\<lambda>txt. Inr (Some [1 / 2, 1 / 4])),
     createTable = (\<lambda>c n rows. Inr (Table 0)),
     table_add = (\<lambda>t rows. Inr ()),
     toArray = (\<lambda>t q. Inr [rowOld, rowOther, rowNew]),
     placeholderDate = 4000,
     clock = (\<lambda>n. 5000 + int n),
     date_parse = exampleParse\<rparr>"

text \<open>The same world with the database out of reach.\<close>

definition unreachableEnv :: env where
  "unreachableEnv = exampleEnv\<lparr>connect := (\<lambda>dir. Inl (Error ''connection refused''))\<rparr>"

text \<open>The same world with a store that refuses to create the table.\<close>

definition fullDiskEnv :: env where
  "fullDiskEnv = exampleEnv\<lparr>createTable := (\<lambda>c n rows. Inl (Error ''disk full''))\<rparr>"

text \<open>A state in which the flag is set and the table handle is missing.\<close>

definition noTableState :: store_state where
  "noTableState = \<lparr>db = Some (Connection 0), table = None, isInitialized = True, calls = []\<rparr>"

text \<open>A state after a successful initialization.\<close>

definition readyState :: store_state where
  "readyState = \<lparr>db = Some (Connection 0), table = Some (Table 0), isInitialized = True,
     calls = []\<rparr>"

section \<open>Lemmas: the map built by the loop\<close>







lemma dedupStep_distinct:
  "distinct (map fst m) \<Longrightarrow> distinct (map fst (dedupStep parse m item))"
  unfolding dedupStep_def Let_def map_set_def
  by (simp split: option.splits add: distinct_update)

lemma foldl_dedupStep_distinct:
  "distinct (map fst m) \<Longrightarrow> distinct (map fst (foldl (dedupStep parse) m rows))"
  by (induction rows arbitrary: m) (simp_all add: dedupStep_distinct)

lemma dedupStep_keys:
  "fst ` set (dedupStep parse m item) = insert (item_id item) (fst ` set m)"
proof -
  have a: "fst ` set (map_set (item_id item) item m) = insert (item_id item) (fst ` set m)"
    by (simp add: map_set_def dom_update)
  have b: "map_of m (item_id item) \<noteq> None \<Longrightarrow> insert (item_id item) (fst ` set m) = fst ` set m"
    by (auto simp: map_of_eq_None_iff)
  show ?thesis
    unfolding dedupStep_def Let_def map_get_def map_has_def
    using a b by (auto split: option.splits simp del: not_None_eq)
qed

lemma foldl_dedupStep_keys:
  "fst ` set (foldl (dedupStep parse) m rows) = fst ` set m \<union> item_id ` set rows"
  by (induction rows arbitrary: m) (auto simp: dedupStep_keys)

lemma latestById_distinct: "distinct (map fst (latestById parse rows))"
  by (simp add: latestById_def foldl_dedupStep_distinct)

lemma latestById_keys: "fst ` set (latestById parse rows) = item_id ` set rows"
  by (simp add: latestById_def foldl_dedupStep_keys)

lemma length_latestById: "length (latestById parse rows) = card (item_id ` set rows)"
proof -
  have "length (latestById parse rows) = length (map fst (latestById parse rows))" by simp
  also have "\<dots> = card (set (map fst (latestById parse rows)))"
    using latestById_distinct by (simp only: distinct_card)
  also have "\<dots> = card (item_id ` set rows)"
    by (simp add: latestById_keys)
  finally show ?thesis .
qed



section \<open>Lemmas: sort and slice\<close>

lemma sortByScore_sorted:
  "sorted_wrt (\<lambda>a b. scoreOrZero b \<le> scoreOrZero a) (sortByScore xs)"
proof -
  have "sorted (map (\<lambda>a. - scoreOrZero a) (sortByScore xs))"
    unfolding sortByScore_def by (rule sorted_sort_key)
  then show ?thesis by (simp add: sorted_map)
qed

lemma sortByScore_mset: "mset (sortByScore xs) = mset xs"
  by (simp add: sortByScore_def)

lemma sortByScore_length: "length (sortByScore xs) = length xs"
  by (simp add: sortByScore_def)


lemma slice0_sorted_wrt: "sorted_wrt P xs \<Longrightarrow> sorted_wrt P (slice0 xs n)"
  by (simp add: slice0_def sorted_wrt_take)

lemma slice0_all: "int (length xs) \<le> n \<Longrightarrow> slice0 xs n = xs"
  by (simp add: slice0_def)


lemma slice0_mset: "mset (slice0 xs n) \<subseteq># mset xs"
proof -
  have "mset (take k xs) \<subseteq># mset xs" for k
  proof -
    have "mset xs = mset (take k xs) + mset (drop k xs)"
      by (simp flip: mset_append)
    then show ?thesis by simp
  qed
  then show ?thesis by (simp add: slice0_def)
qed

lemma slice0_length_le: "length (slice0 xs n) \<le> length xs"
proof -
  have "length (take k xs) \<le> length xs" for k by simp
  then show ?thesis by (cases "n < 0") (simp_all only: slice0_def if_True if_False)
qed

lemma slice0_length_topN: "0 \<le> n \<Longrightarrow> int (length (slice0 xs n)) \<le> n"
  by (simp add: slice0_def)


lemma dedupedResults_all:
  "int (length (latestById parse results)) \<le> topN \<Longrightarrow>
   dedupedResults parse results topN = sortByScore (map_values (latestById parse results))"
  by (simp add: dedupedResults_def slice0_all sortByScore_length map_values_def)



section \<open>Claims on the de-duplication\<close>









section \<open>Lemmas: the store\<close>

lemma initializeVectorStore_initialized:
  "isInitialized s \<Longrightarrow> initializeVectorStore e s = (Inr (), s)"
  by (simp add: initializeVectorStore_def)

lemma createNewTable_outcome:
  "createNewTable e c s = (r, s') \<Longrightarrow>
     (case r of
        Inl error \<Rightarrow> \<not> isInitialized s' \<and> db s' = None \<and> table s' = None
      | Inr u \<Rightarrow> isInitialized s' \<and> table s' \<noteq> None \<and> db s' = db s)"
  by (auto simp: createNewTable_def initFailed_def initDone_def logCall_def Let_def
        split: sum.splits option.splits if_splits)

lemma openOrCreateTable_outcome:
  "openOrCreateTable e c s = (r, s') \<Longrightarrow>
     (case r of
        Inl error \<Rightarrow> \<not> isInitialized s' \<and> db s' = None \<and> table s' = None
      | Inr u \<Rightarrow> isInitialized s' \<and> table s' \<noteq> None \<and> db s' = db s)"
  unfolding openOrCreateTable_def Let_def
  by (auto simp: initFailed_def initDone_def logCall_def
        split: sum.splits if_splits dest!: createNewTable_outcome)

lemma initializeVectorStore_outcome:
  "initializeVectorStore e s = (r, s') \<Longrightarrow>
     (case r of
        Inl error \<Rightarrow> \<not> isInitialized s' \<and> db s' = None \<and> table s' = None
      | Inr u \<Rightarrow> isInitialized s')"
  unfolding initializeVectorStore_def Let_def
  by (auto simp: initFailed_def split: sum.splits if_splits dest!: openOrCreateTable_outcome)

lemma createNewTable_attempts:
  "creationAttempts (snd (createNewTable e c s)) \<le> creationAttempts s + 1"
  by (auto simp: createNewTable_def initFailed_def initDone_def logCall_def Let_def
        creationAttempts_def split: sum.splits option.splits)

lemma openOrCreateTable_attempts:
  "creationAttempts (snd (openOrCreateTable e c s)) \<le> creationAttempts s + 1"
proof -
  have "creationAttempts (snd (createNewTable e c (logCall (TableNames c) s)))
          \<le> creationAttempts s + 1"
    using createNewTable_attempts [of e c "logCall (TableNames c) s"]
    by (simp add: creationAttempts_def logCall_def)
  then show ?thesis
    by (auto simp: openOrCreateTable_def initFailed_def initDone_def logCall_def Let_def
          creationAttempts_def split: sum.splits)
qed

lemma initializeVectorStore_attempts:
  "creationAttempts (snd (initializeVectorStore e s)) \<le> creationAttempts s + 1"
proof -
  have "creationAttempts
          (snd (openOrCreateTable e c (logCall (Connect (VECTOR_STORE_DIR e)) s\<lparr>db := Some c\<rparr>)))
          \<le> creationAttempts s + 1" for c
    using openOrCreateTable_attempts
            [of e c "logCall (Connect (VECTOR_STORE_DIR e)) s\<lparr>db := Some c\<rparr>"]
    by (simp add: creationAttempts_def logCall_def)
  then show ?thesis
    by (auto simp: initializeVectorStore_def initFailed_def logCall_def Let_def
          creationAttempts_def split: sum.splits)
qed

lemma repeated_initialization_initialized:
  "isInitialized s \<Longrightarrow> foldl (\<lambda>s e. snd (initializeVectorStore e s)) s es = s"
  by (induction es) (simp_all add: initializeVectorStore_initialized)

lemma repeated_initialization_attempts:
  "creationAttempts (foldl (\<lambda>s e. snd (initializeVectorStore e s)) s es)
     \<le> creationAttempts s + length es"
proof (induction es arbitrary: s)
  case Nil
  then show ?case by simp
next
  case (Cons a es)
  have "creationAttempts (foldl (\<lambda>s e. snd (initializeVectorStore e s)) s (a # es))
          \<le> creationAttempts (snd (initializeVectorStore a s)) + length es"
    using Cons.IH [of "snd (initializeVectorStore a s)"] by simp
  also have "\<dots> \<le> creationAttempts s + 1 + length es"
    using initializeVectorStore_attempts [of a s] by simp
  finally show ?case by simp
qed

lemma searchLongTermMemory_after_init:
  assumes "initializeVectorStore e s = (Inr u, s1)"
  shows "searchLongTermMemory e queryEmbedding topN flt s =
     (case table s1 of
        None \<Rightarrow> (Inr [], s1)
      | Some t \<Rightarrow>
          (case queryEmbedding of
             None \<Rightarrow> (Inr [], s1)
           | Some v \<Rightarrow>
               if v = [] then (Inr [], s1)
               else
                 (case toArray e t \<lparr>query_vector = v, query_limit = topN,
                                     query_where = whereClause flt\<rparr> of
                    Inl error \<Rightarrow>
                      (Inr [], logCall (TableSearch t \<lparr>query_vector = v, query_limit = topN,
                                         query_where = whereClause flt\<rparr>) s1)
                  | Inr results \<Rightarrow>
                      (Inr (dedupedResults (date_parse e) results topN),
                       logCall (TableSearch t \<lparr>query_vector = v, query_limit = topN,
                                  query_where = whereClause flt\<rparr>) s1))))"
  using assms
  by (simp add: searchLongTermMemory_def Let_def split: option.splits sum.splits)

lemma searchLongTermMemory_fetched:
  assumes "fst (initializeVectorStore e s) = Inr ()"
    and "table (snd (initializeVectorStore e s)) = Some t"
    and "queryEmbedding = Some v" and "v \<noteq> []"
    and "toArray e t \<lparr>query_vector = v, query_limit = topN, query_where = whereClause flt\<rparr>
           = Inr results"
  shows "fst (searchLongTermMemory e queryEmbedding topN flt s) =
           Inr (dedupedResults (date_parse e) results topN)"
proof -
  obtain s1 where i: "initializeVectorStore e s = (Inr (), s1)"
    using assms(1) by (cases "initializeVectorStore e s") simp
  with assms show ?thesis
    by (simp add: searchLongTermMemory_after_init [OF i])
qed

section \<open>Claims on the result of the search\<close>

text \<open>
  Claim C3. Whatever rows the query fetched, and in whatever order, the sequence that
  \<open>searchLongTermMemory\<close> returns is in descending order of score, a missing score
  counting as zero, and it is made of entries of the de-duplicated map. When the map has
  at most \<open>topN\<close> entries the slice drops nothing, and the sequence is the whole
  de-duplicated set in sorted order.
\<close>

theorem search_results_sorted_by_score:
  assumes "fst (initializeVectorStore e s) = Inr ()"
    and "table (snd (initializeVectorStore e s)) = Some t"
    and "queryEmbedding = Some v" and "v \<noteq> []"
    and "toArray e t \<lparr>query_vector = v, query_limit = topN, query_where = whereClause flt\<rparr>
           = Inr results"
  shows "\<exists>res. fst (searchLongTermMemory e queryEmbedding topN flt s) = Inr res \<and>
           sorted_wrt (\<lambda>a b. scoreOrZero b \<le> scoreOrZero a) res \<and>
           mset res \<subseteq># mset (map_values (latestById (date_parse e) results)) \<and>
           (int (length (latestById (date_parse e) results)) \<le> topN \<longrightarrow>
              res = sortByScore (map_values (latestById (date_parse e) results)) \<and>
              mset res = mset (map_values (latestById (date_parse e) results)))"
proof -
  let ?kept = "map_values (latestById (date_parse e) results)"
  let ?res = "dedupedResults (date_parse e) results topN"
  have "fst (searchLongTermMemory e queryEmbedding topN flt s) = Inr ?res"
    using assms by (rule searchLongTermMemory_fetched)
  moreover have "sorted_wrt (\<lambda>a b. scoreOrZero b \<le> scoreOrZero a) ?res"
    unfolding dedupedResults_def by (intro slice0_sorted_wrt sortByScore_sorted)
  moreover have "mset ?res \<subseteq># mset ?kept"
    unfolding dedupedResults_def
    using slice0_mset [of "sortByScore ?kept" topN] by (simp add: sortByScore_mset)
  moreover have "?res = sortByScore ?kept \<and> mset ?res = mset ?kept"
    if "int (length (latestById (date_parse e) results)) \<le> topN"
    using that by (simp add: dedupedResults_all sortByScore_mset)
  ultimately show ?thesis by blast
qed

theorem search_results_sorted_by_score_witness:
  "fst (initializeVectorStore
          (exampleEnv\<lparr>toArray := \<lambda>t q. Inr [rowNegative, rowOld, rowString, rowOther]\<rparr>)
          initial_state) = Inr () \<and>
   table (snd (initializeVectorStore
          (exampleEnv\<lparr>toArray := \<lambda>t q. Inr [rowNegative, rowOld, rowString, rowOther]\<rparr>)
          initial_state)) = Some (Table 0) \<and>
   toArray (exampleEnv\<lparr>toArray := \<lambda>t q. Inr [rowNegative, rowOld, rowString, rowOther]\<rparr>)
     (Table 0) \<lparr>query_vector = [1, 0], query_limit = 4, query_where = whereClause None\<rparr>
     = Inr [rowNegative, rowOld, rowString, rowOther] \<and>
   map_values (latestById exampleParse [rowNegative, rowOld, rowString, rowOther])
     = [rowNegative, rowString, rowOther] \<and>
   fst (searchLongTermMemory
          (exampleEnv\<lparr>toArray := \<lambda>t q. Inr [rowNegative, rowOld, rowString, rowOther]\<rparr>)
          (Some [1, 0]) 4 None initial_state)
     = Inr [rowOther, rowString, rowNegative] \<and>
   map scoreOrZero [rowOther, rowString, rowNegative] = [3 / 4, 0, - (1 / 2)] \<and>
   sorted_wrt (\<lambda>a b. scoreOrZero b \<le> scoreOrZero a) [rowOther, rowString, rowNegative]"
proof -
  let ?env = "exampleEnv\<lparr>toArray := \<lambda>t q. Inr [rowNegative, rowOld, rowString, rowOther]\<rparr>"
  let ?rows = "[rowNegative, rowOld, rowString, rowOther]"
  have i: "initializeVectorStore ?env initial_state =
      (Inr (), \<lparr>db = Some (Connection 0), table = Some (Table 0), isInitialized = True,
         calls = [Connect ''/home/user/.sequential-thinking/vector_store'',
                  TableNames (Connection 0), GetEmbeddings ''schema_init'',
                  CreateTable (Connection 0) TABLE_NAME (dummyData ?env 2)]\<rparr>)"
    by (simp add: initializeVectorStore_def openOrCreateTable_def createNewTable_def
          initDone_def logCall_def exampleEnv_def initial_state_def VECTOR_STORE_DIR_def
          TABLE_NAME_def Let_def numeral_2_eq_2)
  have q: "toArray ?env (Table 0)
     \<lparr>query_vector = [1, 0], query_limit = 4, query_where = whereClause None\<rparr> = Inr ?rows"
    by (simp add: exampleEnv_def)
  have p: "date_parse ?env = exampleParse"
    by (simp add: exampleEnv_def)
  have k: "map_values (latestById exampleParse ?rows) = [rowNegative, rowString, rowOther]"
    by (simp add: latestById_def dedupStep_def map_get_def map_has_def map_set_def
          map_values_def Let_def rowNegative_def rowOld_def rowString_def rowOther_def
          exampleParse_def)
  have sc: "map scoreOrZero [rowOther, rowString, rowNegative] = [3 / 4, 0, - (1 / 2)]"
    by (simp add: scoreOrZero_def rowOther_def rowString_def rowNegative_def)
  have srt: "sortByScore [rowNegative, rowString, rowOther] = [rowOther, rowString, rowNegative]"
    by (simp add: sortByScore_def scoreOrZero_def rowOther_def rowString_def rowNegative_def)
  have n: "int (length (latestById (date_parse ?env) ?rows)) \<le> 4"
    by (simp add: length_latestById card_insert_if rowNegative_def rowOld_def rowString_def
          rowOther_def)
  from search_results_sorted_by_score
         [of ?env initial_state "Table 0" "Some [1, 0]" "[1, 0]" 4 None ?rows]
  obtain res where
    "fst (searchLongTermMemory ?env (Some [1, 0]) 4 None initial_state) = Inr res"
    "sorted_wrt (\<lambda>a b. scoreOrZero b \<le> scoreOrZero a) res"
    "res = sortByScore (map_values (latestById (date_parse ?env) ?rows))"
    using i q n by auto
  then show ?thesis using i q k sc srt by (simp add: p)
qed

text \<open>
  Claim C4. Whatever rows the query fetched, the result has as many items as there are
  distinct ids among them (the entries kept by the de-duplication) when that number is
  at most \<open>topN\<close>, never more items than that number, and for a count \<open>topN \<ge> 0\<close> never
  more than \<open>topN\<close> items. With \<open>topN = 3\<close> and three fetched rows of two ids it has
  exactly two items.
\<close>

theorem search_result_length:
  assumes "fst (initializeVectorStore e s) = Inr ()"
    and "table (snd (initializeVectorStore e s)) = Some t"
    and "queryEmbedding = Some v" and "v \<noteq> []"
    and "toArray e t \<lparr>query_vector = v, query_limit = topN, query_where = whereClause flt\<rparr>
           = Inr results"
  shows "\<exists>res. fst (searchLongTermMemory e queryEmbedding topN flt s) = Inr res \<and>
           length (latestById (date_parse e) results) = card (item_id ` set results) \<and>
           (int (card (item_id ` set results)) \<le> topN \<longrightarrow>
              length res = card (item_id ` set results)) \<and>
           length res \<le> card (item_id ` set results) \<and>
           (0 \<le> topN \<longrightarrow> int (length res) \<le> topN) \<and>
           (topN = 3 \<and> length results = 3 \<and> card (item_id ` set results) = 2 \<longrightarrow>
              length res = 2)"
proof -
  let ?kept = "map_values (latestById (date_parse e) results)"
  let ?res = "dedupedResults (date_parse e) results topN"
  have len: "length ?kept = card (item_id ` set results)"
    by (simp add: map_values_def length_latestById)
  have "fst (searchLongTermMemory e queryEmbedding topN flt s) = Inr ?res"
    using assms by (rule searchLongTermMemory_fetched)
  moreover have full: "length ?res = card (item_id ` set results)"
    if "int (card (item_id ` set results)) \<le> topN"
    using that len by (simp add: dedupedResults_all length_latestById sortByScore_length)
  moreover have "length ?res \<le> card (item_id ` set results)"
    unfolding dedupedResults_def
    using slice0_length_le [of "sortByScore ?kept" topN] len by (simp add: sortByScore_length)
  moreover have "int (length ?res) \<le> topN" if "0 \<le> topN"
    unfolding dedupedResults_def using that by (rule slice0_length_topN)
  moreover have "length ?res = 2"
    if "topN = 3 \<and> length results = 3 \<and> card (item_id ` set results) = 2"
    using that full by simp
  ultimately show ?thesis
    using length_latestById [of "date_parse e" results] by blast
qed

theorem search_result_length_witness:
  "fst (initializeVectorStore exampleEnv initial_state) = Inr () \<and>
   table (snd (initializeVectorStore exampleEnv initial_state)) = Some (Table 0) \<and>
   toArray exampleEnv (Table 0)
     \<lparr>query_vector = [1, 0], query_limit = 3, query_where = whereClause None\<rparr>
     = Inr [rowOld, rowOther, rowNew] \<and>
   length [rowOld, rowOther, rowNew] = 3 \<and>
   card (item_id ` set [rowOld, rowOther, rowNew]) = 2 \<and>
   fst (searchLongTermMemory exampleEnv (Some [1, 0]) 3 None initial_state)
     = Inr [rowOther, rowNew] \<and>
   length [rowOther, rowNew] = 2"
proof -
  have i: "initializeVectorStore exampleEnv initial_state =
      (Inr (), \<lparr>db = Some (Connection 0), table = Some (Table 0), isInitialized = True,
         calls = [Connect ''/home/user/.sequential-thinking/vector_store'',
                  TableNames (Connection 0), GetEmbeddings ''schema_init'',
                  CreateTable (Connection 0) TABLE_NAME (dummyData exampleEnv 2)]\<rparr>)"
    by (simp add: initializeVectorStore_def openOrCreateTable_def createNewTable_def
          initDone_def logCall_def exampleEnv_def initial_state_def VECTOR_STORE_DIR_def
          TABLE_NAME_def Let_def numeral_2_eq_2)
  have q: "toArray exampleEnv (Table 0)
     \<lparr>query_vector = [1, 0], query_limit = 3, query_where = whereClause None\<rparr>
     = Inr [rowOld, rowOther, rowNew]"
    by (simp add: exampleEnv_def)
  have c: "card (item_id ` set [rowOld, rowOther, rowNew]) = 2"
    by (simp add: card_insert_if rowOld_def rowOther_def rowNew_def)
  have k: "map_values (latestById (date_parse exampleEnv) [rowOld, rowOther, rowNew])
             = [rowNew, rowOther]"
    by (simp add: latestById_def dedupStep_def map_get_def map_has_def map_set_def
          map_values_def Let_def rowOld_def rowOther_def rowNew_def exampleEnv_def)
  have srt: "sortByScore [rowNew, rowOther] = [rowOther, rowNew]"
    by (simp add: sortByScore_def scoreOrZero_def rowOther_def rowNew_def)
  have r: "fst (searchLongTermMemory exampleEnv (Some [1, 0]) 3 None initial_state)
             = Inr [rowOther, rowNew]"
    using searchLongTermMemory_fetched
            [of exampleEnv initial_state "Table 0" "Some [1, 0]" "[1, 0]" 3 None
                "[rowOld, rowOther, rowNew]"] i q
    by (simp add: dedupedResults_def k srt slice0_def)
  from search_result_length
         [of exampleEnv initial_state "Table 0" "Some [1, 0]" "[1, 0]" 3 None
             "[rowOld, rowOther, rowNew]"]
  obtain res where
    "fst (searchLongTermMemory exampleEnv (Some [1, 0]) 3 None initial_state) = Inr res"
    "length res = 2"
    using i q c by auto
  with r have "length [rowOther, rowNew] = 2" by simp
  then show ?thesis using i q c r by simp
qed


section \<open>Claims on initialization\<close>

text \<open>
  Claim C7. When the store is not initialized and a step of the initialization throws
  (the connection, the listing of the tables, the opening of the table, the embedding
  call, the check of its dimension, or the creation of the table), the call throws that
  very error and leaves the flag false and both handles cleared. Whatever the failure,
  the state after it is "not ready"; and the call returns normally only with the flag
  set and both handles in place.
\<close>

theorem initialization_failure_resets_state:
  fixes e :: env and s :: store_state
  defines "r \<equiv> initializeVectorStore e s"
  defines "resetWith \<equiv> (\<lambda>error. fst r = Inl error \<and> \<not> isInitialized (snd r) \<and>
                                   db (snd r) = None \<and> table (snd r) = None)"
  assumes "\<not> isInitialized s"
  shows
    "(connect e (VECTOR_STORE_DIR e) = Inl error \<longrightarrow> resetWith error) \<and>
     (connect e (VECTOR_STORE_DIR e) = Inr c \<and> tableNames e c = Inl error
        \<longrightarrow> resetWith error) \<and>
     (connect e (VECTOR_STORE_DIR e) = Inr c \<and> tableNames e c = Inr names \<and>
      TABLE_NAME \<in> set names \<and> openTable e c TABLE_NAME = Inl error
        \<longrightarrow> resetWith error) \<and>
     (connect e (VECTOR_STORE_DIR e) = Inr c \<and> tableNames e c = Inr names \<and>
      TABLE_NAME \<notin> set names \<and> getEmbeddings e ''schema_init'' = Inl error
        \<longrightarrow> resetWith error) \<and>
     (connect e (VECTOR_STORE_DIR e) = Inr c \<and> tableNames e c = Inr names \<and>
      TABLE_NAME \<notin> set names \<and> getEmbeddings e ''schema_init'' = Inr sampleEmbedding \<and>
      (sampleEmbedding = None \<or> sampleEmbedding = Some [])
        \<longrightarrow> resetWith embeddingDimensionError) \<and>
     (connect e (VECTOR_STORE_DIR e) = Inr c \<and> tableNames e c = Inr names \<and>
      TABLE_NAME \<notin> set names \<and> getEmbeddings e ''schema_init'' = Inr (Some emb) \<and>
      emb \<noteq> [] \<and> createTable e c TABLE_NAME (dummyData e (length emb)) = Inl error
        \<longrightarrow> resetWith error) \<and>
     (fst r = Inl error \<longrightarrow>
        \<not> isInitialized (snd r) \<and> db (snd r) = None \<and> table (snd r) = None) \<and>
     (fst r = Inr () \<longrightarrow>
        isInitialized (snd r) \<and> db (snd r) \<noteq> None \<and> table (snd r) \<noteq> None)"
proof -
  have out: "case fst r of
        Inl error \<Rightarrow> \<not> isInitialized (snd r) \<and> db (snd r) = None \<and> table (snd r) = None
      | Inr u \<Rightarrow> isInitialized (snd r)"
    using initializeVectorStore_outcome [of e s "fst r" "snd r"] by (simp add: r_def)
  have unfold: "r = (case connect e (VECTOR_STORE_DIR e) of
        Inl error \<Rightarrow> initFailed error (logCall (Connect (VECTOR_STORE_DIR e)) s)
      | Inr c \<Rightarrow> openOrCreateTable e c (logCall (Connect (VECTOR_STORE_DIR e)) s\<lparr>db := Some c\<rparr>))"
    using assms(3) by (simp add: r_def initializeVectorStore_def Let_def)
  have c1: "connect e (VECTOR_STORE_DIR e) = Inl error \<longrightarrow> resetWith error"
    by (simp add: unfold resetWith_def initFailed_def)
  have c2: "connect e (VECTOR_STORE_DIR e) = Inr c \<and> tableNames e c = Inl error
        \<longrightarrow> resetWith error"
    by (simp add: unfold resetWith_def openOrCreateTable_def initFailed_def Let_def)
  have c3: "connect e (VECTOR_STORE_DIR e) = Inr c \<and> tableNames e c = Inr names \<and>
      TABLE_NAME \<in> set names \<and> openTable e c TABLE_NAME = Inl error
        \<longrightarrow> resetWith error"
    by (simp add: unfold resetWith_def openOrCreateTable_def initFailed_def Let_def)
  have c4: "connect e (VECTOR_STORE_DIR e) = Inr c \<and> tableNames e c = Inr names \<and>
      TABLE_NAME \<notin> set names \<and> getEmbeddings e ''schema_init'' = Inl error
        \<longrightarrow> resetWith error"
    by (simp add: unfold resetWith_def openOrCreateTable_def createNewTable_def
          initFailed_def Let_def)
  have c5: "connect e (VECTOR_STORE_DIR e) = Inr c \<and> tableNames e c = Inr names \<and>
      TABLE_NAME \<notin> set names \<and> getEmbeddings e ''schema_init'' = Inr sampleEmbedding \<and>
      (sampleEmbedding = None \<or> sampleEmbedding = Some [])
        \<longrightarrow> resetWith embeddingDimensionError"
    by (auto simp: unfold resetWith_def openOrCreateTable_def createNewTable_def
          initFailed_def Let_def)
  have c6: "connect e (VECTOR_STORE_DIR e) = Inr c \<and> tableNames e c = Inr names \<and>
      TABLE_NAME \<notin> set names \<and> getEmbeddings e ''schema_init'' = Inr (Some emb) \<and>
      emb \<noteq> [] \<and> createTable e c TABLE_NAME (dummyData e (length emb)) = Inl error
        \<longrightarrow> resetWith error"
    by (simp add: unfold resetWith_def openOrCreateTable_def createNewTable_def
          initFailed_def Let_def)
  have c7: "fst r = Inl error \<longrightarrow>
        \<not> isInitialized (snd r) \<and> db (snd r) = None \<and> table (snd r) = None"
    using out by auto
  have c8: "fst r = Inr () \<longrightarrow>
        isInitialized (snd r) \<and> db (snd r) \<noteq> None \<and> table (snd r) \<noteq> None"
  proof
    assume ok: "fst r = Inr ()"
    show "isInitialized (snd r) \<and> db (snd r) \<noteq> None \<and> table (snd r) \<noteq> None"
    proof (cases "connect e (VECTOR_STORE_DIR e)")
      case (Inl error)
      with ok show ?thesis by (simp add: unfold initFailed_def)
    next
      case (Inr c)
      let ?s1 = "logCall (Connect (VECTOR_STORE_DIR e)) s\<lparr>db := Some c\<rparr>"
      from Inr have "openOrCreateTable e c ?s1 = (fst r, snd r)" by (simp add: unfold)
      from openOrCreateTable_outcome [OF this] ok show ?thesis by simp
    qed
  qed
  from c1 c2 c3 c4 c5 c6 c7 c8 show ?thesis by blast
qed

theorem initialization_failure_resets_state_witness:
  "\<not> isInitialized initial_state \<and>
   connect unreachableEnv (VECTOR_STORE_DIR unreachableEnv) = Inl (Error ''connection refused'') \<and>
   fst (initializeVectorStore unreachableEnv initial_state) = Inl (Error ''connection refused'') \<and>
   \<not> isInitialized (snd (initializeVectorStore unreachableEnv initial_state)) \<and>
   db (snd (initializeVectorStore unreachableEnv initial_state)) = None \<and>
   table (snd (initializeVectorStore unreachableEnv initial_state)) = None \<and>
   getEmbeddings (exampleEnv\<lparr>getEmbeddings := \<lambda>txt. Inr None\<rparr>) ''schema_init'' = Inr None \<and>
   fst (initializeVectorStore (exampleEnv\<lparr>getEmbeddings := \<lambda>txt. Inr None\<rparr>) initial_state)
     = Inl embeddingDimensionError \<and>
   db (snd (initializeVectorStore (exampleEnv\<lparr>getEmbeddings := \<lambda>txt. Inr None\<rparr>) initial_state))
     = None \<and>
   createTable (exampleEnv\<lparr>createTable := \<lambda>c n rows. Inl (Error ''disk full'')\<rparr>)
      (Connection 0) TABLE_NAME
      (dummyData (exampleEnv\<lparr>createTable := \<lambda>c n rows. Inl (Error ''disk full'')\<rparr>) 2)
     = Inl (Error ''disk full'') \<and>
   initializeVectorStore (exampleEnv\<lparr>createTable := \<lambda>c n rows. Inl (Error ''disk full'')\<rparr>)
      initial_state
     = (Inl (Error ''disk full''),
        \<lparr>db = None, table = None, isInitialized = False,
         calls = [Connect ''/home/user/.sequential-thinking/vector_store'',
                  TableNames (Connection 0), GetEmbeddings ''schema_init'',
                  CreateTable (Connection 0) TABLE_NAME
                    (dummyData (exampleEnv\<lparr>createTable := \<lambda>c n rows. Inl (Error ''disk full'')\<rparr>) 2)]\<rparr>) \<and>
   fst (initializeVectorStore exampleEnv initial_state) = Inr () \<and>
   isInitialized (snd (initializeVectorStore exampleEnv initial_state)) \<and>
   db (snd (initializeVectorStore exampleEnv initial_state)) = Some (Connection 0) \<and>
   table (snd (initializeVectorStore exampleEnv initial_state)) = Some (Table 0)"
proof -
  let ?noEmb = "exampleEnv\<lparr>getEmbeddings := \<lambda>txt. Inr None\<rparr>"
  let ?noCreate = "exampleEnv\<lparr>createTable := \<lambda>c n rows. Inl (Error ''disk full'')\<rparr>"
  have n: "\<not> isInitialized initial_state"
    by (simp add: initial_state_def)
  have a: "fst (initializeVectorStore unreachableEnv initial_state) = Inl (Error ''connection refused'') \<and>
      \<not> isInitialized (snd (initializeVectorStore unreachableEnv initial_state)) \<and>
      db (snd (initializeVectorStore unreachableEnv initial_state)) = None \<and>
      table (snd (initializeVectorStore unreachableEnv initial_state)) = None"
    using initialization_failure_resets_state
            [OF n, of unreachableEnv "Error ''connection refused''"]
    by (simp add: unreachableEnv_def exampleEnv_def)
  have b: "fst (initializeVectorStore ?noEmb initial_state) = Inl embeddingDimensionError \<and>
      db (snd (initializeVectorStore ?noEmb initial_state)) = None"
    using initialization_failure_resets_state
            [OF n, of ?noEmb _ "Connection 0" "[]" None]
    by (simp add: exampleEnv_def TABLE_NAME_def)
  have c: "fst (initializeVectorStore ?noCreate initial_state) = Inl (Error ''disk full'') \<and>
      \<not> isInitialized (snd (initializeVectorStore ?noCreate initial_state)) \<and>
      db (snd (initializeVectorStore ?noCreate initial_state)) = None \<and>
      table (snd (initializeVectorStore ?noCreate initial_state)) = None"
    using initialization_failure_resets_state
            [OF n, of ?noCreate "Error ''disk full''" "Connection 0" "[]" _ "[1 / 2, 1 / 4]"]
    by (simp add: exampleEnv_def TABLE_NAME_def)
  have c': "initializeVectorStore ?noCreate initial_state
     = (Inl (Error ''disk full''),
        \<lparr>db = None, table = None, isInitialized = False,
         calls = [Connect ''/home/user/.sequential-thinking/vector_store'',
                  TableNames (Connection 0), GetEmbeddings ''schema_init'',
                  CreateTable (Connection 0) TABLE_NAME (dummyData ?noCreate 2)]\<rparr>)"
    by (simp add: initializeVectorStore_def openOrCreateTable_def createNewTable_def
          initFailed_def logCall_def exampleEnv_def initial_state_def VECTOR_STORE_DIR_def
          TABLE_NAME_def Let_def numeral_2_eq_2)
  have d: "fst (initializeVectorStore exampleEnv initial_state) = Inr ()"
    by (simp add: initializeVectorStore_def openOrCreateTable_def createNewTable_def
          initDone_def logCall_def exampleEnv_def initial_state_def VECTOR_STORE_DIR_def
          TABLE_NAME_def Let_def)
  have d': "isInitialized (snd (initializeVectorStore exampleEnv initial_state)) \<and>
      db (snd (initializeVectorStore exampleEnv initial_state)) = Some (Connection 0) \<and>
      table (snd (initializeVectorStore exampleEnv initial_state)) = Some (Table 0)"
    by (simp add: initializeVectorStore_def openOrCreateTable_def createNewTable_def
          initDone_def logCall_def exampleEnv_def initial_state_def VECTOR_STORE_DIR_def
          TABLE_NAME_def Let_def)
  show ?thesis
    using n a b c c' d d' by (simp add: unreachableEnv_def exampleEnv_def)
qed


text \<open>
  Claim C8, as the code has it. Once the flag \<open>isInitialized\<close> is set, a call of
  \<open>initializeVectorStore\<close> returns at once and changes nothing: neither the module's
  variables nor the log of requests to the backing store; and so does any number of
  further calls. Hence, in a run of calls made one after the other whose first call
  returns normally, at most one \<open>createTable\<close> request is made in all. A call that
  throws leaves the flag unset, so the next call tries again: every call makes at most
  one \<open>createTable\<close> request, and a run of \<open>N\<close> calls at most \<open>N\<close>.
\<close>

theorem initialization_idempotent:
  "(isInitialized s \<longrightarrow> initializeVectorStore e s = (Inr (), s)) \<and>
   (isInitialized s \<longrightarrow> foldl (\<lambda>s e. snd (initializeVectorStore e s)) s es = s) \<and>
   (fst (initializeVectorStore e s) = Inr () \<longrightarrow>
      isInitialized (snd (initializeVectorStore e s)) \<and>
      foldl (\<lambda>s e. snd (initializeVectorStore e s)) s (e # es)
        = snd (initializeVectorStore e s) \<and>
      creationAttempts (foldl (\<lambda>s e. snd (initializeVectorStore e s)) s (e # es))
        \<le> creationAttempts s + 1) \<and>
   creationAttempts (snd (initializeVectorStore e s)) \<le> creationAttempts s + 1 \<and>
   creationAttempts (foldl (\<lambda>s e. snd (initializeVectorStore e s)) s es)
     \<le> creationAttempts s + length es"
proof (intro conjI impI)
  show "creationAttempts (snd (initializeVectorStore e s)) \<le> creationAttempts s + 1"
    by (rule initializeVectorStore_attempts)
next
  show "creationAttempts (foldl (\<lambda>s e. snd (initializeVectorStore e s)) s es)
     \<le> creationAttempts s + length es"
    by (rule repeated_initialization_attempts)
next
  assume "isInitialized s"
  then show "initializeVectorStore e s = (Inr (), s)"
    by (rule initializeVectorStore_initialized)
next
  assume "isInitialized s"
  then show "foldl (\<lambda>s e. snd (initializeVectorStore e s)) s es = s"
    by (rule repeated_initialization_initialized)
next
  assume ok: "fst (initializeVectorStore e s) = Inr ()"
  then show flag: "isInitialized (snd (initializeVectorStore e s))"
    by (cases "initializeVectorStore e s") (auto dest: initializeVectorStore_outcome)
  then show same: "foldl (\<lambda>s e. snd (initializeVectorStore e s)) s (e # es)
        = snd (initializeVectorStore e s)"
    by (simp add: repeated_initialization_initialized)
  show "creationAttempts (foldl (\<lambda>s e. snd (initializeVectorStore e s)) s (e # es))
        \<le> creationAttempts s + 1"
    unfolding same by (rule initializeVectorStore_attempts)
qed

theorem initialization_idempotent_witness:
  "isInitialized readyState \<and>
   initializeVectorStore unreachableEnv readyState = (Inr (), readyState) \<and>
   foldl (\<lambda>s e. snd (initializeVectorStore e s)) readyState
     [exampleEnv, unreachableEnv, exampleEnv] = readyState \<and>
   fst (initializeVectorStore exampleEnv initial_state) = Inr () \<and>
   creationAttempts initial_state = 0 \<and>
   creationAttempts (snd (initializeVectorStore exampleEnv initial_state)) = 1 \<and>
   foldl (\<lambda>s e. snd (initializeVectorStore e s)) initial_state
     [exampleEnv, exampleEnv, unreachableEnv, exampleEnv]
     = snd (initializeVectorStore exampleEnv initial_state) \<and>
   creationAttempts (foldl (\<lambda>s e. snd (initializeVectorStore e s)) initial_state
     [exampleEnv, exampleEnv, unreachableEnv, exampleEnv]) \<le> 1"
proof -
  have rdy: "isInitialized readyState"
    by (simp add: readyState_def)
  have i: "initializeVectorStore exampleEnv initial_state =
      (Inr (), \<lparr>db = Some (Connection 0), table = Some (Table 0), isInitialized = True,
         calls = [Connect ''/home/user/.sequential-thinking/vector_store'',
                  TableNames (Connection 0), GetEmbeddings ''schema_init'',
                  CreateTable (Connection 0) TABLE_NAME (dummyData exampleEnv 2)]\<rparr>)"
    by (simp add: initializeVectorStore_def openOrCreateTable_def createNewTable_def
          initDone_def logCall_def exampleEnv_def initial_state_def VECTOR_STORE_DIR_def
          TABLE_NAME_def Let_def numeral_2_eq_2)
  have c0: "creationAttempts initial_state = 0"
    by (simp add: creationAttempts_def initial_state_def)
  have c1: "creationAttempts (snd (initializeVectorStore exampleEnv initial_state)) = 1"
    by (simp add: i creationAttempts_def)
  have a: "initializeVectorStore unreachableEnv readyState = (Inr (), readyState)"
    using initialization_idempotent [of readyState unreachableEnv "[]"] rdy by simp
  have b: "foldl (\<lambda>s e. snd (initializeVectorStore e s)) readyState
     [exampleEnv, unreachableEnv, exampleEnv] = readyState"
    using initialization_idempotent
            [of readyState exampleEnv "[exampleEnv, unreachableEnv, exampleEnv]"] rdy
    by blast
  have ok: "fst (initializeVectorStore exampleEnv initial_state) = Inr ()"
    by (simp add: i)
  have c: "foldl (\<lambda>s e. snd (initializeVectorStore e s)) initial_state
       [exampleEnv, exampleEnv, unreachableEnv, exampleEnv]
       = snd (initializeVectorStore exampleEnv initial_state) \<and>
     creationAttempts (foldl (\<lambda>s e. snd (initializeVectorStore e s)) initial_state
       [exampleEnv, exampleEnv, unreachableEnv, exampleEnv]) \<le> 1"
    using initialization_idempotent
            [of initial_state exampleEnv "[exampleEnv, unreachableEnv, exampleEnv]",
             THEN conjunct2, THEN conjunct2, THEN conjunct1, rule_format, OF ok,
             unfolded c0 add_0]
    by blast
  show ?thesis using rdy ok c0 c1 a b c by (simp del: foldl_Cons)
qed

text \<open>
  The claim C8 as it is written fails: \<open>N\<close> calls can make more than one
  \<open>createTable\<close> request. When the creation throws, the \<open>catch\<close> block clears the
  flag and the next call asks again: three calls against a store that refuses make
  three requests, and a refused call followed by two calls that succeed makes two.
\<close>

theorem failed_creation_is_attempted_again:
  "creationAttempts
     (snd (initializeVectorStore fullDiskEnv
        (snd (initializeVectorStore fullDiskEnv
           (snd (initializeVectorStore fullDiskEnv initial_state)))))) = 3 \<and>
   creationAttempts
     (snd (initializeVectorStore exampleEnv
        (snd (initializeVectorStore exampleEnv
           (snd (initializeVectorStore fullDiskEnv initial_state)))))) = 2 \<and>
   isInitialized
     (snd (initializeVectorStore exampleEnv
        (snd (initializeVectorStore exampleEnv
           (snd (initializeVectorStore fullDiskEnv initial_state))))))"
proof -
  have f: "initializeVectorStore fullDiskEnv s =
      (Inl (Error ''disk full''),
       \<lparr>db = None, table = None, isInitialized = False,
        calls = calls s @
          [Connect ''/home/user/.sequential-thinking/vector_store'',
           TableNames (Connection 0), GetEmbeddings ''schema_init'',
           CreateTable (Connection 0) TABLE_NAME (dummyData fullDiskEnv 2)]\<rparr>)"
    if "\<not> isInitialized s" for s
    using that
    by (simp add: initializeVectorStore_def openOrCreateTable_def createNewTable_def
          initFailed_def logCall_def fullDiskEnv_def exampleEnv_def VECTOR_STORE_DIR_def
          TABLE_NAME_def Let_def numeral_2_eq_2)
  have g: "initializeVectorStore exampleEnv s =
      (Inr (),
       \<lparr>db = Some (Connection 0), table = Some (Table 0), isInitialized = True,
        calls = calls s @
          [Connect ''/home/user/.sequential-thinking/vector_store'',
           TableNames (Connection 0), GetEmbeddings ''schema_init'',
           CreateTable (Connection 0) TABLE_NAME (dummyData exampleEnv 2)]\<rparr>)"
    if "\<not> isInitialized s" for s
    using that
    by (simp add: initializeVectorStore_def openOrCreateTable_def createNewTable_def
          initDone_def logCall_def exampleEnv_def VECTOR_STORE_DIR_def
          TABLE_NAME_def Let_def numeral_2_eq_2)
  have h: "initializeVectorStore exampleEnv s = (Inr (), s)" if "isInitialized s" for s
    using that by (rule initializeVectorStore_initialized)
  have n: "\<not> isInitialized initial_state"
    by (simp add: initial_state_def)
  show ?thesis
    by (simp add: f g h n creationAttempts_def initial_state_def)
qed

section \<open>Claims on errors at the two exported functions\<close>

lemma addOrUpdateMemoryItems_after_init:
  assumes "initializeVectorStore e s = (Inr u, s1)"
  shows "addOrUpdateMemoryItems e items s =
     (case table s1 of
        None \<Rightarrow> (Inr (), s1)
      | Some t \<Rightarrow>
          (case items of
             None \<Rightarrow> (Inr (), s1)
           | Some its \<Rightarrow>
               if its = [] then (Inr (), s1)
               else (Inr (), logCall (TableAdd t (timestampedData e its)) s1)))"
  using assms
  by (simp add: addOrUpdateMemoryItems_def Let_def split: option.splits sum.splits)

lemma addOrUpdateMemoryItems_init_failed:
  "initializeVectorStore e s = (Inl error, s1) \<Longrightarrow>
   addOrUpdateMemoryItems e items s = (Inl error, s1)"
  by (simp add: addOrUpdateMemoryItems_def)

lemma searchLongTermMemory_init_failed:
  "initializeVectorStore e s = (Inl error, s1) \<Longrightarrow>
   searchLongTermMemory e queryEmbedding topN flt s = (Inl error, s1)"
  by (simp add: searchLongTermMemory_def)

text \<open>
  Claim C5, as the code has it. \<open>searchLongTermMemory\<close> throws exactly when
  \<open>initializeVectorStore\<close> throws, and then it throws the initializer's error. When
  the initializer returns normally, the search returns the empty sequence whenever the
  table handle is missing, or \<open>queryEmbedding\<close> is absent or empty, or the query
  throws: no error of the query reaches the caller.
\<close>

theorem search_degrades_once_initialized:
  fixes e :: env and s :: store_state
    and queryEmbedding :: "real list option" and topN :: int and flt :: "string option"
  defines "i \<equiv> initializeVectorStore e s"
  defines "r \<equiv> searchLongTermMemory e queryEmbedding topN flt s"
  shows
    "(fst r = Inl error \<longleftrightarrow> fst i = Inl error) \<and>
     (fst i = Inr () \<and> table (snd i) = None \<longrightarrow> r = (Inr [], snd i)) \<and>
     (fst i = Inr () \<and> (queryEmbedding = None \<or> queryEmbedding = Some [])
        \<longrightarrow> r = (Inr [], snd i)) \<and>
     (fst i = Inr () \<and> table (snd i) = Some t \<and> queryEmbedding = Some v \<and> v \<noteq> [] \<and>
      toArray e t \<lparr>query_vector = v, query_limit = topN, query_where = whereClause flt\<rparr>
        = Inl queryError
        \<longrightarrow> fst r = Inr [])"
proof (cases "fst i")
  case (Inl err)
  then have "i = (Inl err, snd i)" by (metis prod.collapse)
  then have "r = (Inl err, snd i)"
    unfolding i_def r_def by (rule searchLongTermMemory_init_failed)
  with Inl show ?thesis by simp
next
  case (Inr u)
  then have "i = (Inr u, snd i)" by (metis prod.collapse)
  then have "r = (case table (snd i) of
        None \<Rightarrow> (Inr [], snd i)
      | Some t \<Rightarrow>
          (case queryEmbedding of
             None \<Rightarrow> (Inr [], snd i)
           | Some v \<Rightarrow>
               if v = [] then (Inr [], snd i)
               else
                 (case toArray e t \<lparr>query_vector = v, query_limit = topN,
                                     query_where = whereClause flt\<rparr> of
                    Inl error \<Rightarrow>
                      (Inr [], logCall (TableSearch t \<lparr>query_vector = v, query_limit = topN,
                                         query_where = whereClause flt\<rparr>) (snd i))
                  | Inr results \<Rightarrow>
                      (Inr (dedupedResults (date_parse e) results topN),
                       logCall (TableSearch t \<lparr>query_vector = v, query_limit = topN,
                                  query_where = whereClause flt\<rparr>) (snd i)))))"
    unfolding i_def r_def by (rule searchLongTermMemory_after_init)
  with Inr show ?thesis
    by (auto split: option.splits sum.splits)
qed

theorem search_degrades_once_initialized_witness:
  "fst (initializeVectorStore exampleEnv noTableState) = Inr () \<and>
   table (snd (initializeVectorStore exampleEnv noTableState)) = None \<and>
   searchLongTermMemory exampleEnv (Some [1, 0]) 3 None noTableState = (Inr [], noTableState) \<and>
   fst (initializeVectorStore exampleEnv readyState) = Inr () \<and>
   searchLongTermMemory exampleEnv (Some []) 3 None readyState = (Inr [], readyState) \<and>
   searchLongTermMemory exampleEnv None 3 None readyState = (Inr [], readyState) \<and>
   table (snd (initializeVectorStore exampleEnv readyState)) = Some (Table 0) \<and>
   toArray (exampleEnv\<lparr>toArray := \<lambda>t q. Inl (Error ''query failed'')\<rparr>) (Table 0)
     \<lparr>query_vector = [1, 0], query_limit = 3, query_where = whereClause None\<rparr>
     = Inl (Error ''query failed'') \<and>
   fst (searchLongTermMemory (exampleEnv\<lparr>toArray := \<lambda>t q. Inl (Error ''query failed'')\<rparr>)
          (Some [1, 0]) 3 None readyState) = Inr [] \<and>
   fst (initializeVectorStore unreachableEnv initial_state) = Inl (Error ''connection refused'') \<and>
   fst (searchLongTermMemory unreachableEnv (Some [1, 0]) 3 None initial_state)
     = Inl (Error ''connection refused'')"
proof -
  let ?broken = "exampleEnv\<lparr>toArray := \<lambda>t q. Inl (Error ''query failed'')\<rparr>"
  have i1: "initializeVectorStore exampleEnv noTableState = (Inr (), noTableState)"
    by (simp add: initializeVectorStore_def noTableState_def)
  have i2: "initializeVectorStore e readyState = (Inr (), readyState)" for e
    by (simp add: initializeVectorStore_def readyState_def)
  have i3: "fst (initializeVectorStore unreachableEnv initial_state)
              = Inl (Error ''connection refused'')"
    by (simp add: initializeVectorStore_def initFailed_def unreachableEnv_def exampleEnv_def
          initial_state_def Let_def)
  have t1: "table noTableState = None" and t2: "table readyState = Some (Table 0)"
    by (simp_all add: noTableState_def readyState_def)
  have a: "searchLongTermMemory exampleEnv (Some [1, 0]) 3 None noTableState
             = (Inr [], noTableState)"
    using search_degrades_once_initialized
            [of exampleEnv "Some [1, 0]" 3 None noTableState] i1 t1
    by simp
  have b: "searchLongTermMemory exampleEnv (Some []) 3 None readyState = (Inr [], readyState)"
    using search_degrades_once_initialized [of exampleEnv "Some []" 3 None readyState] i2
    by simp
  have c: "searchLongTermMemory exampleEnv None 3 None readyState = (Inr [], readyState)"
    using search_degrades_once_initialized [of exampleEnv None 3 None readyState] i2
    by simp
  have q: "toArray ?broken (Table 0)
     \<lparr>query_vector = [1, 0], query_limit = 3, query_where = whereClause None\<rparr>
     = Inl (Error ''query failed'')"
    by (simp add: exampleEnv_def)
  have d: "fst (searchLongTermMemory ?broken (Some [1, 0]) 3 None readyState) = Inr []"
    using search_degrades_once_initialized
            [of ?broken "Some [1, 0]" 3 None readyState _ "Table 0" "[1, 0]"
                "Error ''query failed''"] i2 t2 q
    by simp
  have f: "fst (searchLongTermMemory unreachableEnv (Some [1, 0]) 3 None initial_state)
     = Inl (Error ''connection refused'')"
    using search_degrades_once_initialized
            [of unreachableEnv "Some [1, 0]" 3 None initial_state
                "Error ''connection refused''"] i3
    by simp
  show ?thesis using i1 i2 i3 t1 t2 a b c q d f by simp
qed

text \<open>
  The claim C5 as it is written fails: with an empty \<open>queryEmbedding\<close> the search does
  not return the empty sequence when the database cannot be reached, it throws the
  error of the initializer, which is awaited before the \<open>try\<close>.
\<close>

theorem search_throws_initialization_error:
  "searchLongTermMemory unreachableEnv (Some []) 3 None initial_state =
     (Inl (Error ''connection refused''),
      \<lparr>db = None, table = None, isInitialized = False,
       calls = [Connect ''/home/user/.sequential-thinking/vector_store'']\<rparr>)"
  by (simp add: searchLongTermMemory_def initializeVectorStore_def initFailed_def logCall_def
        unreachableEnv_def exampleEnv_def initial_state_def VECTOR_STORE_DIR_def Let_def)

text \<open>
  Claim C6, as the code has it. \<open>addOrUpdateMemoryItems\<close> throws exactly when
  \<open>initializeVectorStore\<close> throws, and then it throws the initializer's error. When
  the initializer returns normally, the writer returns normally: with a missing table
  handle, or with \<open>items\<close> absent or empty, it asks nothing more of the store; otherwise
  it asks for one append of the time-stamped items, and an error of that append is
  swallowed.
\<close>

theorem writer_throws_only_initialization_errors:
  fixes e :: env and s :: store_state and items :: "long_term_memory_data list option"
  defines "i \<equiv> initializeVectorStore e s"
  defines "r \<equiv> addOrUpdateMemoryItems e items s"
  shows
    "(fst r = Inl error \<longleftrightarrow> fst i = Inl error) \<and>
     (fst i = Inr () \<longrightarrow> fst r = Inr ()) \<and>
     (fst i = Inr () \<and> table (snd i) = None \<longrightarrow> r = (Inr (), snd i)) \<and>
     (fst i = Inr () \<and> (items = None \<or> items = Some []) \<longrightarrow> r = (Inr (), snd i)) \<and>
     (fst i = Inr () \<and> table (snd i) = Some t \<and> items = Some its \<and> its \<noteq> [] \<and>
      table_add e t (timestampedData e its) = Inl addError
        \<longrightarrow> r = (Inr (), logCall (TableAdd t (timestampedData e its)) (snd i)))"
proof (cases "fst i")
  case (Inl err)
  then have "i = (Inl err, snd i)" by (metis prod.collapse)
  then have "r = (Inl err, snd i)"
    unfolding i_def r_def by (rule addOrUpdateMemoryItems_init_failed)
  with Inl show ?thesis by simp
next
  case (Inr u)
  then have "i = (Inr u, snd i)" by (metis prod.collapse)
  then have "r = (case table (snd i) of
        None \<Rightarrow> (Inr (), snd i)
      | Some t \<Rightarrow>
          (case items of
             None \<Rightarrow> (Inr (), snd i)
           | Some its \<Rightarrow>
               if its = [] then (Inr (), snd i)
               else (Inr (), logCall (TableAdd t (timestampedData e its)) (snd i))))"
    unfolding i_def r_def by (rule addOrUpdateMemoryItems_after_init)
  with Inr show ?thesis
    by (auto split: option.splits)
qed

theorem writer_throws_only_initialization_errors_witness:
  "fst (initializeVectorStore exampleEnv noTableState) = Inr () \<and>
   table (snd (initializeVectorStore exampleEnv noTableState)) = None \<and>
   addOrUpdateMemoryItems exampleEnv (Some [exampleItem]) noTableState = (Inr (), noTableState) \<and>
   fst (initializeVectorStore exampleEnv readyState) = Inr () \<and>
   addOrUpdateMemoryItems exampleEnv (Some []) readyState = (Inr (), readyState) \<and>
   addOrUpdateMemoryItems exampleEnv None readyState = (Inr (), readyState) \<and>
   table (snd (initializeVectorStore exampleEnv readyState)) = Some (Table 0) \<and>
   table_add (exampleEnv\<lparr>table_add := \<lambda>t rows. Inl (Error ''write failed'')\<rparr>) (Table 0)
     (timestampedData (exampleEnv\<lparr>table_add := \<lambda>t rows. Inl (Error ''write failed'')\<rparr>)
        [exampleItem])
     = Inl (Error ''write failed'') \<and>
   addOrUpdateMemoryItems (exampleEnv\<lparr>table_add := \<lambda>t rows. Inl (Error ''write failed'')\<rparr>)
     (Some [exampleItem]) readyState
     = (Inr (),
        readyState\<lparr>calls :=
          [TableAdd (Table 0)
             [\<lparr>item_id = ''a'', item_text = ''first version'', vector = [1, 0],
               metadata_timestamp = Some 10, metadata_stage = ''analysis'',
               insert_timestamp = Some (DateObject (Some 5000))\<rparr>]]\<rparr>) \<and>
   fst (initializeVectorStore unreachableEnv initial_state) = Inl (Error ''connection refused'') \<and>
   fst (addOrUpdateMemoryItems unreachableEnv (Some []) initial_state)
     = Inl (Error ''connection refused'')"
proof -
  let ?broken = "exampleEnv\<lparr>table_add := \<lambda>t rows. Inl (Error ''write failed'')\<rparr>"
  have i1: "initializeVectorStore exampleEnv noTableState = (Inr (), noTableState)"
    by (simp add: initializeVectorStore_def noTableState_def)
  have i2: "initializeVectorStore e readyState = (Inr (), readyState)" for e
    by (simp add: initializeVectorStore_def readyState_def)
  have i3: "fst (initializeVectorStore unreachableEnv initial_state)
              = Inl (Error ''connection refused'')"
    by (simp add: initializeVectorStore_def initFailed_def unreachableEnv_def exampleEnv_def
          initial_state_def Let_def)
  have t1: "table noTableState = None" and t2: "table readyState = Some (Table 0)"
    by (simp_all add: noTableState_def readyState_def)
  have a: "addOrUpdateMemoryItems exampleEnv (Some [exampleItem]) noTableState
             = (Inr (), noTableState)"
    using writer_throws_only_initialization_errors
            [of exampleEnv "Some [exampleItem]" noTableState] i1 t1
    by simp
  have b: "addOrUpdateMemoryItems exampleEnv (Some []) readyState = (Inr (), readyState)"
    using writer_throws_only_initialization_errors [of exampleEnv "Some []" readyState] i2
    by simp
  have c: "addOrUpdateMemoryItems exampleEnv None readyState = (Inr (), readyState)"
    using writer_throws_only_initialization_errors [of exampleEnv None readyState] i2
    by simp
  have td: "timestampedData ?broken [exampleItem] =
      [\<lparr>item_id = ''a'', item_text = ''first version'', vector = [1, 0],
        metadata_timestamp = Some 10, metadata_stage = ''analysis'',
        insert_timestamp = Some (DateObject (Some 5000))\<rparr>]"
    by (simp add: timestampedData_def exampleItem_def exampleEnv_def)
  have q: "table_add ?broken (Table 0) (timestampedData ?broken [exampleItem])
     = Inl (Error ''write failed'')"
    by (simp add: exampleEnv_def)
  have d: "addOrUpdateMemoryItems ?broken (Some [exampleItem]) readyState
     = (Inr (),
        readyState\<lparr>calls :=
          [TableAdd (Table 0)
             [\<lparr>item_id = ''a'', item_text = ''first version'', vector = [1, 0],
               metadata_timestamp = Some 10, metadata_stage = ''analysis'',
               insert_timestamp = Some (DateObject (Some 5000))\<rparr>]]\<rparr>)"
    using writer_throws_only_initialization_errors
            [of ?broken "Some [exampleItem]" readyState _ "Table 0" "[exampleItem]"
                "Error ''write failed''"] i2 t2 q
    by (simp add: td logCall_def readyState_def)
  have f: "fst (addOrUpdateMemoryItems unreachableEnv (Some []) initial_state)
     = Inl (Error ''connection refused'')"
    using writer_throws_only_initialization_errors
            [of unreachableEnv "Some []" initial_state "Error ''connection refused''"] i3
    by simp
  show ?thesis using i1 i2 i3 t1 t2 a b c q d f by simp
qed

text \<open>
  The claim C6 as it is written fails: the writer does raise to its caller when the
  database cannot be reached, because the initializer is awaited before the \<open>try\<close>.
\<close>

theorem writer_throws_initialization_error:
  "addOrUpdateMemoryItems unreachableEnv (Some [exampleItem]) initial_state =
     (Inl (Error ''connection refused''),
      \<lparr>db = None, table = None, isInitialized = False,
       calls = [Connect ''/home/user/.sequential-thinking/vector_store'']\<rparr>)"
  by (simp add: addOrUpdateMemoryItems_def initializeVectorStore_def initFailed_def logCall_def
        unreachableEnv_def exampleEnv_def initial_state_def VECTOR_STORE_DIR_def Let_def)


section \<open>Claim on the query tool\<close>

text \<open>
  Claim C10. For the tool \<open>query\<close> and any SQL string whose upper-cased text contains
  \<open>INSERT\<close>, \<open>UPDATE\<close>, \<open>DELETE\<close>, \<open>CREATE\<close> or \<open>DROP\<close> anywhere, inside an identifier
  or a literal too, the handler throws \<open>Only READ operations are allowed\<close> and has sent
  nothing to the backend. A \<open>SELECT\<close> of a column named \<open>created_at\<close> is rejected so.
\<close>

theorem write_keywords_rejected:
  assumes "params_name request = ''query''"
    and "arguments_sql request = Some sql"
    and "str_includes (toUpperCase sql) ''INSERT'' \<or>
         str_includes (toUpperCase sql) ''UPDATE'' \<or>
         str_includes (toUpperCase sql) ''DELETE'' \<or>
         str_includes (toUpperCase sql) ''CREATE'' \<or>
         str_includes (toUpperCase sql) ''DROP''"
  shows "callToolHandler projectId loc bigquery_query request =
           (Inl (Error ''Only READ operations are allowed''), [])"
  using assms by (simp add: callToolHandler_def Let_def)

theorem write_keywords_rejected_witness:
  "params_name \<lparr>params_name = ''query'',
                 arguments_sql = Some ''SELECT created_at FROM events'',
                 arguments_maximumBytesBilled = None\<rparr> = ''query'' \<and>
   toUpperCase ''SELECT created_at FROM events'' = ''SELECT CREATED_AT FROM EVENTS'' \<and>
   str_includes (toUpperCase ''SELECT created_at FROM events'') ''CREATE'' \<and>
   callToolHandler ''my-project'' ''us-central1'' (\<lambda>options. Inr [''row''])
     \<lparr>params_name = ''query'', arguments_sql = Some ''SELECT created_at FROM events'',
      arguments_maximumBytesBilled = None\<rparr>
     = (Inl (Error ''Only READ operations are allowed''), []) \<and>
   callToolHandler ''my-project'' ''us-central1'' (\<lambda>options. Inr [''row''])
     \<lparr>params_name = ''query'', arguments_sql = Some ''SELECT name FROM events'',
      arguments_maximumBytesBilled = None\<rparr>
     = (Inr \<lparr>content_rows = [''row''], isError = False\<rparr>,
        [\<lparr>query = ''SELECT name FROM events'', location = ''us-central1'',
          maximumBytesBilled = ''1000000000''\<rparr>])"
proof -
  have u: "toUpperCase ''SELECT created_at FROM events'' = ''SELECT CREATED_AT FROM EVENTS''"
    by (simp add: toUpperCase_def toUpperChar_def)
  have k: "str_includes (toUpperCase ''SELECT created_at FROM events'') ''CREATE''"
    unfolding u by (simp add: str_includes_def sublist_code)
  have a: "callToolHandler ''my-project'' ''us-central1'' (\<lambda>options. Inr [''row''])
     \<lparr>params_name = ''query'', arguments_sql = Some ''SELECT created_at FROM events'',
      arguments_maximumBytesBilled = None\<rparr>
     = (Inl (Error ''Only READ operations are allowed''), [])"
    using write_keywords_rejected
            [of "\<lparr>params_name = ''query'',
                   arguments_sql = Some ''SELECT created_at FROM events'',
                   arguments_maximumBytesBilled = None\<rparr>"
                "''SELECT created_at FROM events''" "''my-project''" "''us-central1''"
                "\<lambda>options. Inr [''row'']"] k
    by simp
  have u2: "toUpperCase ''SELECT name FROM events'' = ''SELECT NAME FROM EVENTS''"
    by (simp add: toUpperCase_def toUpperChar_def)
  have b: "callToolHandler ''my-project'' ''us-central1'' (\<lambda>options. Inr [''row''])
     \<lparr>params_name = ''query'', arguments_sql = Some ''SELECT name FROM events'',
      arguments_maximumBytesBilled = None\<rparr>
     = (Inr \<lparr>content_rows = [''row''], isError = False\<rparr>,
        [\<lparr>query = ''SELECT name FROM events'', location = ''us-central1'',
          maximumBytesBilled = ''1000000000''\<rparr>])"
    by (simp add: callToolHandler_def Let_def u2 str_includes_def sublist_code)
  show ?thesis using u k a b by simp
qed


end
